theory Spec2Isabelle
  imports Complex_Main
begin

section \<open>Local computations of the decentralized regression (local.py)\<close>

text \<open>
  The theory embeds \<^verbatim>\<open>local.py\<close>: the two matrix products, the averaging of the
  subjects' images, the three phase handlers and the dispatcher at the bottom of the file.
  Python exceptions are values of \<open>error\<close>; a function that can raise returns
  \<open>error + 'a\<close> with \<open>Inl\<close> for the exception.
\<close>

subsection \<open>Exceptions\<close>

datatype error =
    ValueError string
  | IndexError
  | KeyError string
  | FileNotFoundError
  | TypeError

subsection \<open>float64 values\<close>

text \<open>
  A \<^verbatim>\<open>float64\<close> is a finite number, one of the two infinities, or NaN. The special
  values follow IEEE 754 (NaN absorbs, \<open>inf - inf\<close> and \<open>0 * inf\<close> are NaN). Arithmetic on
  finite values is exact: rounding, overflow to infinity and the sign of zero are not
  modelled, and no theorem below depends on them.
\<close>

datatype double = Finite real | PosInf | NegInf | NaN

fun isnan :: "double \<Rightarrow> bool" where
  "isnan NaN = True"
| "isnan _ = False"

fun isfinite :: "double \<Rightarrow> bool" where
  "isfinite (Finite _) = True"
| "isfinite _ = False"

fun dadd :: "double \<Rightarrow> double \<Rightarrow> double" where
  "dadd NaN _ = NaN"
| "dadd _ NaN = NaN"
| "dadd (Finite a) (Finite b) = Finite (a + b)"
| "dadd PosInf NegInf = NaN"
| "dadd NegInf PosInf = NaN"
| "dadd PosInf _ = PosInf"
| "dadd _ PosInf = PosInf"
| "dadd NegInf _ = NegInf"
| "dadd _ NegInf = NegInf"

fun dneg :: "double \<Rightarrow> double" where
  "dneg (Finite a) = Finite (- a)"
| "dneg PosInf = NegInf"
| "dneg NegInf = PosInf"
| "dneg NaN = NaN"

definition dsub :: "double \<Rightarrow> double \<Rightarrow> double" where
  "dsub a b = dadd a (dneg b)"

text \<open>The infinity with the sign of a non-zero finite factor; NaN for the factor zero.\<close>

definition signed_inf :: "real \<Rightarrow> double" where
  "signed_inf a = (if a = 0 then NaN else if 0 < a then PosInf else NegInf)"

fun dmul :: "double \<Rightarrow> double \<Rightarrow> double" where
  "dmul NaN _ = NaN"
| "dmul _ NaN = NaN"
| "dmul (Finite a) (Finite b) = Finite (a * b)"
| "dmul (Finite a) PosInf = signed_inf a"
| "dmul PosInf (Finite b) = signed_inf b"
| "dmul (Finite a) NegInf = signed_inf (- a)"
| "dmul NegInf (Finite b) = signed_inf (- b)"
| "dmul PosInf PosInf = PosInf"
| "dmul NegInf NegInf = PosInf"
| "dmul PosInf NegInf = NegInf"
| "dmul NegInf PosInf = NegInf"

text \<open>
  Division as numpy's \<^verbatim>\<open>true_divide\<close> does it with warnings ignored: a non-zero
  number over zero is an infinity, \<open>0 / 0\<close> and \<open>inf / inf\<close> are NaN.
\<close>

fun ddiv :: "double \<Rightarrow> double \<Rightarrow> double" where
  "ddiv NaN _ = NaN"
| "ddiv _ NaN = NaN"
| "ddiv (Finite a) (Finite b) = (if b = 0 then signed_inf a else Finite (a / b))"
| "ddiv (Finite a) _ = Finite 0"
| "ddiv PosInf (Finite b) = (if 0 \<le> b then PosInf else NegInf)"
| "ddiv NegInf (Finite b) = (if 0 \<le> b then NegInf else PosInf)"
| "ddiv _ _ = NaN"

subsection \<open>Two-dimensional arrays\<close>

text \<open>
  A two-dimensional \<^verbatim>\<open>ndarray\<close> carries its shape and its rows. The shape is kept apart
  from the rows because an array with no rows still has a column count.
\<close>

record ndarray =
  nrows :: nat
  ncols :: nat
  elems :: "double list list"

definition wf_ndarray :: "ndarray \<Rightarrow> bool" where
  "wf_ndarray A \<longleftrightarrow>
     length (elems A) = nrows A \<and> list_all (\<lambda>r. length r = ncols A) (elems A)"

text \<open>\<^verbatim>\<open>A[:, j]\<close>\<close>

definition column :: "ndarray \<Rightarrow> nat \<Rightarrow> double list" where
  "column A j = map (\<lambda>r. r ! j) (elems A)"

text \<open>\<^verbatim>\<open>A.T\<close>\<close>

definition transpose_nd :: "ndarray \<Rightarrow> ndarray" where
  "transpose_nd A =
     \<lparr>nrows = ncols A, ncols = nrows A, elems = map (column A) [0..<ncols A]\<rparr>"

text \<open>
  The inner product accumulates from \<open>0.0\<close> in index order.
\<close>

definition dot :: "double list \<Rightarrow> double list \<Rightarrow> double" where
  "dot xs ys = foldl dadd (Finite 0) (map2 dmul xs ys)"

text \<open>
  \<^verbatim>\<open>a @ b\<close> on two-dimensional arrays: a \<^verbatim>\<open>ValueError\<close> when the inner dimensions
  differ, else the array of the inner products of the rows of \<open>a\<close> with the columns of \<open>b\<close>.
\<close>

definition matmul :: "ndarray \<Rightarrow> ndarray \<Rightarrow> error + ndarray" where
  "matmul A B =
     (if ncols A \<noteq> nrows B then Inl (ValueError ''shapes not aligned'')
      else Inr \<lparr>nrows = nrows A, ncols = ncols B,
                elems = map (\<lambda>r. map (\<lambda>j. dot r (column B j)) [0..<ncols B]) (elems A)\<rparr>)"

text \<open>\<^verbatim>\<open>A.tolist()\<close>\<close>

definition tolist :: "ndarray \<Rightarrow> double list list" where
  "tolist A = elems A"

subsection \<open>The two products of the normal equation\<close>

definition calc_XtransposeX_local :: "ndarray \<Rightarrow> error + ndarray" where
  "calc_XtransposeX_local biased_X = matmul (transpose_nd biased_X) biased_X"

definition calc_Xtransposey_local :: "ndarray \<Rightarrow> ndarray \<Rightarrow> error + ndarray" where
  "calc_Xtransposey_local biased_X y = matmul (transpose_nd biased_X) y"

subsection \<open>JSON documents and the search for a field\<close>

datatype json =
    JNull
  | JBool bool
  | JInt int
  | JFloat double
  | JString string
  | JArray "json list"
  | JObject "(string \<times> json) list"

text \<open>
  Modelled from the spec: \<^verbatim>\<open>reg.list_recursive\<close> is defined in
  \<^verbatim>\<open>regression.py\<close>, which is not part of the given sources. The spec describes it
  as a structural search for a field of the given name anywhere in the message, at any
  nesting depth, collecting the values found.
\<close>

fun list_recursive :: "json \<Rightarrow> string \<Rightarrow> json list" where
  "list_recursive (JObject kvs) key =
     concat (map (\<lambda>kv. list_recursive (snd kv) key @ (if fst kv = key then [snd kv] else []))
               kvs)"
| "list_recursive (JArray xs) key = concat (map (\<lambda>x. list_recursive x key) xs)"
| "list_recursive _ key = []"

subsection \<open>The dispatcher\<close>

text \<open>The exception raised in the last branch of the dispatcher.\<close>

definition protocol_error :: error where
  "protocol_error = ValueError ''Error occurred at Local''"

text \<open>
  The block under \<^verbatim>\<open>if __name__ == '__main__'\<close>. The three handlers are parameters;
  \<open>Inr\<close> carries what the selected handler returned, \<open>Inl\<close> the exception of the last
  branch, after which nothing is written to standard output.
\<close>

definition main :: "(json \<Rightarrow> 'r) \<Rightarrow> (json \<Rightarrow> 'r) \<Rightarrow> (json \<Rightarrow> 'r) \<Rightarrow> json \<Rightarrow> error + 'r" where
  "main local_0_handler local_1_handler local_2_handler PARSED_ARGS =
     (let PHASE_KEY = list_recursive PARSED_ARGS ''computation_phase''
      in if PHASE_KEY = [] then Inr (local_0_handler PARSED_ARGS)
         else if JString ''remote_0'' \<in> set PHASE_KEY then Inr (local_1_handler PARSED_ARGS)
         else if JString ''remote_1'' \<in> set PHASE_KEY then Inr (local_2_handler PARSED_ARGS)
         else Inl protocol_error)"

subsection \<open>Messages, documents and the files of a run\<close>

record phase_state =
  baseDirectory :: string
  transferDirectory :: string
  cacheDirectory :: string

record ('i, 'c) args =
  state :: phase_state
  input :: 'i
  cache :: 'c

record 'o computation_output_dict =
  output_dict :: 'o
  cache_dict :: "(string \<times> string) list"

record phase_output =
  computation_phase :: string

record local_0_input =
  threshold :: json
  voxel_size :: json
  lambda :: json

record local_0_output = phase_output +
  categorical_dict :: json
  threshold_out :: json
  voxel_size_out :: json
  avg_nifti :: string

record local_1_output =
  XtransposeX_local :: "double list list"
  Xtransposey_local :: "double list list"
  mean_y_local :: "double list"
  count_local :: "int list"
  local_stats_list :: json
  X_labels :: "string list"
  lambda_out :: json

record local_2_cache =
  covariates :: string
  dependents :: string

record local_2_input =
  avg_beta_vector :: "double list list"
  mean_y_global :: "double list"

record local_2_output =
  SSE_local :: "double list"
  SST_local :: "double list"
  varX_matrix_local :: "double list list"

text \<open>An image: the voxel values of \<^verbatim>\<open>get_fdata()\<close>, flattened, with header and affine.\<close>

record nifti =
  fdata :: "double list"
  header :: string
  affine :: "double list list"

datatype document =
    ArgsFile "(local_0_input, unit) args"
  | Local1Output local_1_output
  | Local2Output local_2_output

text \<open>
  The files a run touches. Images and arrays are addressed by directory and file name
  (\<^verbatim>\<open>os.path.join(dir, name)\<close>); the documents of \<^verbatim>\<open>write_file\<close> by the
  \<^verbatim>\<open>dir_name\<close> and \<^verbatim>\<open>file_name\<close> it is called with.
\<close>

record store =
  images :: "string \<times> string \<Rightarrow> nifti option"
  arrays :: "string \<times> string \<Rightarrow> ndarray option"
  documents :: "string \<times> string \<Rightarrow> document option"

text \<open>\<^verbatim>\<open>nib.load(os.path.join(dir, name))\<close>; a missing file raises FileNotFoundError.\<close>

definition nib_load :: "store \<Rightarrow> string \<Rightarrow> string \<Rightarrow> error + nifti" where
  "nib_load s dir name =
     (case images s (dir, name) of None \<Rightarrow> Inl FileNotFoundError | Some img \<Rightarrow> Inr img)"

definition nib_save :: "nifti \<Rightarrow> string \<Rightarrow> string \<Rightarrow> store \<Rightarrow> store" where
  "nib_save img dir name s = s\<lparr>images := (images s)((dir, name) \<mapsto> img)\<rparr>"

definition np_load :: "store \<Rightarrow> string \<Rightarrow> string \<Rightarrow> error + ndarray" where
  "np_load s dir name =
     (case arrays s (dir, name) of None \<Rightarrow> Inl FileNotFoundError | Some A \<Rightarrow> Inr A)"

definition np_save :: "string \<Rightarrow> string \<Rightarrow> ndarray \<Rightarrow> store \<Rightarrow> store" where
  "np_save dir name A s = s\<lparr>arrays := (arrays s)((dir, name) \<mapsto> A)\<rparr>"

text \<open>
  Modelled from the spec: \<^verbatim>\<open>write_file\<close> and \<^verbatim>\<open>read_file\<close> are defined in
  \<^verbatim>\<open>rw_utils.py\<close>, which is not part of the given sources. The spec describes them as
  generic helpers that persist a document under a fixed key and read it back.
\<close>

definition write_file :: "document \<Rightarrow> string \<Rightarrow> string \<Rightarrow> store \<Rightarrow> store" where
  "write_file dict dir_name file_name s =
     s\<lparr>documents := (documents s)((dir_name, file_name) \<mapsto> dict)\<rparr>"

definition read_file :: "store \<Rightarrow> string \<Rightarrow> string \<Rightarrow> error + document" where
  "read_file s dir_name file_name =
     (case documents s (dir_name, file_name) of
        None \<Rightarrow> Inl FileNotFoundError
      | Some d \<Rightarrow> Inr d)"

subsection \<open>Averaging the images\<close>

text \<open>
  The covariate table \<^verbatim>\<open>covar_x\<close>: one row per subject, indexed by the file name of
  the subject's image. It is the result of \<^verbatim>\<open>parse_for_covar_info(args)\<close>, an external
  parser, and an input of the model.
\<close>

type_synonym covar_table = "(string \<times> json list) list"

text \<open>
  \<^verbatim>\<open>covar_x.drop(index=image, inplace=True)\<close>: every row with the label goes; a label
  that is not in the index raises KeyError.
\<close>

definition drop_index :: "string \<Rightarrow> covar_table \<Rightarrow> error + covar_table" where
  "drop_index label covar_x =
     (if label \<notin> set (map fst covar_x) then Inl (KeyError label)
      else Inr (filter (\<lambda>row. fst row \<noteq> label) covar_x))"

text \<open>\<^verbatim>\<open>np.count_nonzero\<close>: NaN and the infinities count as non-zero.\<close>

definition count_nonzero :: "double list \<Rightarrow> nat" where
  "count_nonzero image_data = length (filter (\<lambda>x. x \<noteq> Finite 0) image_data)"

text \<open>The test of lines 59 and 60.\<close>

definition unusable :: "double list \<Rightarrow> bool" where
  "unusable image_data \<longleftrightarrow>
     list_all isnan image_data \<or> count_nonzero image_data = 0 \<or> length image_data = 0"

text \<open>
  \<^verbatim>\<open>appended_data += image_data\<close>. The accumulator starts as the integer \<open>0\<close>
  (\<open>None\<close> here), so the first addition is \<open>0 + image_data\<close>; later additions are
  elementwise and in place. Images of one study have one shape: an addition of two
  volumes of different sizes is the ValueError numpy raises when shapes do not broadcast
  (broadcasting between different shapes is not modelled).
\<close>

definition add_image :: "double list option \<Rightarrow> double list \<Rightarrow> error + double list option" where
  "add_image appended_data image_data =
     (case appended_data of
        None \<Rightarrow> Inr (Some (map (dadd (Finite 0)) image_data))
      | Some acc \<Rightarrow>
          if length acc = length image_data then Inr (Some (map2 dadd acc image_data))
          else Inl (ValueError ''operands could not be broadcast together''))"

text \<open>
  The loop of lines 56 to 67 over the index of the table as it was before the loop. Only
  FileNotFoundError is caught; an exception of \<^verbatim>\<open>drop\<close> or of the addition leaves the
  loop.
\<close>

fun average_loop ::
  "store \<Rightarrow> string \<Rightarrow> string list \<Rightarrow> covar_table \<Rightarrow> double list option \<Rightarrow>
   error + covar_table \<times> double list option" where
  "average_loop s input_dir [] covar_x appended_data = Inr (covar_x, appended_data)"
| "average_loop s input_dir (label # rest) covar_x appended_data =
     (case nib_load s input_dir label of
        Inl e \<Rightarrow>
          if e = FileNotFoundError then
            (case drop_index label covar_x of
               Inl e' \<Rightarrow> Inl e'
             | Inr covar_x' \<Rightarrow> average_loop s input_dir rest covar_x' appended_data)
          else Inl e
      | Inr img \<Rightarrow>
          if unusable (fdata img) then
            (case drop_index label covar_x of
               Inl e' \<Rightarrow> Inl e'
             | Inr covar_x' \<Rightarrow> average_loop s input_dir rest covar_x' appended_data)
          else
            (case add_image appended_data (fdata img) of
               Inl e' \<Rightarrow> Inl e'
             | Inr appended_data' \<Rightarrow> average_loop s input_dir rest covar_x appended_data'))"

text \<open>
  \<^verbatim>\<open>average_nifti\<close>. \<^verbatim>\<open>covar_x.index[0]\<close> raises IndexError on an empty table. The
  accumulator is still the integer \<open>0\<close> only when no image was added, and then the table
  is empty and line 69 has raised; the TypeError branch keeps the function total.
\<close>

definition average_nifti :: "phase_state \<Rightarrow> covar_table \<Rightarrow> store \<Rightarrow> (error + unit) \<times> store" where
  "average_nifti st covar_x s =
     (case average_loop s (baseDirectory st) (map fst covar_x) covar_x None of
        Inl e \<Rightarrow> (Inl e, s)
      | Inr (covar_x', appended_data) \<Rightarrow>
          (case covar_x' of
             [] \<Rightarrow> (Inl IndexError, s)
           | row # _ \<Rightarrow>
               (case nib_load s (baseDirectory st) (fst row) of
                  Inl e \<Rightarrow> (Inl e, s)
                | Inr sample_image \<Rightarrow>
                    (case appended_data of
                       None \<Rightarrow> (Inl TypeError, s)
                     | Some acc \<Rightarrow>
                         (Inr (),
                          nib_save
                            \<lparr>fdata = map (\<lambda>x. ddiv x (Finite (real (length covar_x')))) acc,
                             header = header sample_image, affine = affine sample_image\<rparr>
                            (transferDirectory st) ''avg_nifti.nii'' s)))))"

subsection \<open>The three phase handlers\<close>

text \<open>
  \<^verbatim>\<open>local_0\<close>. The results of the external parsers \<^verbatim>\<open>parse_for_categorical\<close> and
  \<^verbatim>\<open>parse_for_covar_info\<close> are the first two arguments.
\<close>

definition local_0 ::
  "json \<Rightarrow> covar_table \<Rightarrow> (local_0_input, unit) args \<Rightarrow> store \<Rightarrow>
   (error + local_0_output computation_output_dict) \<times> store" where
  "local_0 categorical covar_x a s =
     (case average_nifti (state a) covar_x s of
        (Inl e, s') \<Rightarrow> (Inl e, s')
      | (Inr _, s') \<Rightarrow>
          (Inr \<lparr>output_dict =
                  \<lparr>computation_phase = ''local_0'', categorical_dict = categorical,
                   threshold_out = threshold (input a), voxel_size_out = voxel_size (input a),
                   avg_nifti = ''avg_nifti.nii''\<rparr>,
                cache_dict = []\<rparr>,
           write_file (ArgsFile a) ''cache'' ''args_file'' s'))"

text \<open>
  \<^verbatim>\<open>local_1\<close>. The results of the external functions \<^verbatim>\<open>vbm_parser\<close>,
  \<^verbatim>\<open>mean_and_len_y\<close>, \<^verbatim>\<open>local_stats_to_dict_numba\<close> and
  \<^verbatim>\<open>add_site_covariates\<close> are the first six arguments: the column labels and the
  values of the augmented design matrix, the response matrix, its column means and
  counts, and the local statistics.
\<close>

definition local_1 ::
  "string list \<Rightarrow> ndarray \<Rightarrow> ndarray \<Rightarrow> double list \<Rightarrow> int list \<Rightarrow> json \<Rightarrow>
   ('i, 'c) args \<Rightarrow> store \<Rightarrow> (error + phase_output computation_output_dict) \<times> store" where
  "local_1 labels biased_X y meanY_vector lenY_vector stats a s =
     (case read_file s ''cache'' ''args_file'' of
        Inl e \<Rightarrow> (Inl e, s)
      | Inr (Local1Output _) \<Rightarrow> (Inl (KeyError ''input''), s)
      | Inr (Local2Output _) \<Rightarrow> (Inl (KeyError ''input''), s)
      | Inr (ArgsFile original_args) \<Rightarrow>
          (case calc_XtransposeX_local biased_X of
             Inl e \<Rightarrow> (Inl e, s)
           | Inr XtX \<Rightarrow>
               (case calc_Xtransposey_local biased_X y of
                  Inl e \<Rightarrow> (Inl e, s)
                | Inr Xty \<Rightarrow>
                    (Inr \<lparr>output_dict = \<lparr>computation_phase = ''local_1''\<rparr>,
                          cache_dict = [(''covariates'', ''X.npy''), (''dependents'', ''y.npy'')]\<rparr>,
                     write_file
                       (Local1Output
                          \<lparr>XtransposeX_local = tolist XtX, Xtransposey_local = tolist Xty,
                           mean_y_local = meanY_vector, count_local = lenY_vector,
                           local_stats_list = stats, X_labels = labels,
                           lambda_out = lambda (input original_args)\<rparr>)
                       ''output'' ''local_output''
                       (np_save (cacheDirectory (state a)) ''y.npy'' y
                          (np_save (cacheDirectory (state a)) ''X.npy'' biased_X s))))))"

text \<open>
  Modelled from the spec: \<^verbatim>\<open>reg.sum_squared_error\<close> is defined in
  \<^verbatim>\<open>regression.py\<close>, which is not part of the given sources. The spec describes its
  result as the sum over the site's subjects of the squared residual between the local
  response and the global coefficient vector applied to the local design matrix. The spec
  gives no result for operands whose shapes do not fit; the model fails there.
\<close>

definition sum_squared_error :: "ndarray \<Rightarrow> double list \<Rightarrow> double list \<Rightarrow> error + double" where
  "sum_squared_error biased_X y beta_vector =
     (if length beta_vector \<noteq> ncols biased_X \<or> length y \<noteq> nrows biased_X
      then Inl (ValueError ''shapes not aligned'')
      else Inr (foldl dadd (Finite 0)
                  (map2 (\<lambda>yi row. let r = dsub yi (dot row beta_vector) in dmul r r)
                     y (elems biased_X))))"

text \<open>\<^verbatim>\<open>np.sum(np.square(np.subtract(curr_y, m)))\<close>\<close>

definition sum_squared_total :: "double list \<Rightarrow> double \<Rightarrow> double" where
  "sum_squared_total curr_y m =
     foldl dadd (Finite 0) (map (\<lambda>x. let d = dsub x m in dmul d d) curr_y)"

text \<open>The loop of lines 200 to 205; an index past the end of a list raises IndexError.\<close>

fun voxel_loop ::
  "ndarray \<Rightarrow> ndarray \<Rightarrow> double list list \<Rightarrow> double list \<Rightarrow> nat list \<Rightarrow>
   double list \<Rightarrow> double list \<Rightarrow> error + double list \<times> double list" where
  "voxel_loop biased_X y betas means [] SSE SST = Inr (SSE, SST)"
| "voxel_loop biased_X y betas means (voxel # rest) SSE SST =
     (if length betas \<le> voxel then Inl IndexError
      else case sum_squared_error biased_X (column y voxel) (betas ! voxel) of
        Inl e \<Rightarrow> Inl e
      | Inr sse \<Rightarrow>
          if length means \<le> voxel then Inl IndexError
          else voxel_loop biased_X y betas means rest
                 (SSE @ [sse]) (SST @ [sum_squared_total (column y voxel) (means ! voxel)]))"

definition local_2 ::
  "(local_2_input, local_2_cache) args \<Rightarrow> store \<Rightarrow>
   (error + phase_output computation_output_dict) \<times> store" where
  "local_2 a s =
     (case np_load s (cacheDirectory (state a)) (covariates (cache a)) of
        Inl e \<Rightarrow> (Inl e, s)
      | Inr biased_X \<Rightarrow>
          (case np_load s (cacheDirectory (state a)) (dependents (cache a)) of
             Inl e \<Rightarrow> (Inl e, s)
           | Inr y \<Rightarrow>
               (case voxel_loop biased_X y (avg_beta_vector (input a)) (mean_y_global (input a))
                       [0..<ncols y] [] [] of
                  Inl e \<Rightarrow> (Inl e, s)
                | Inr (SSE, SST) \<Rightarrow>
                    (case matmul (transpose_nd biased_X) biased_X of
                       Inl e \<Rightarrow> (Inl e, s)
                     | Inr varX \<Rightarrow>
                         (Inr \<lparr>output_dict = \<lparr>computation_phase = ''local_2''\<rparr>,
                               cache_dict = []\<rparr>,
                          write_file
                            (Local2Output
                               \<lparr>SSE_local = SSE, SST_local = SST,
                                varX_matrix_local = tolist varX\<rparr>)
                            ''output'' ''local_output'' s)))))"

text \<open>The document a phase has written to the output file, if it is of that phase.\<close>

definition local_1_written :: "store \<Rightarrow> local_1_output option" where
  "local_1_written s =
     (case documents s (''output'', ''local_output'') of
        Some (Local1Output out) \<Rightarrow> Some out
      | _ \<Rightarrow> None)"

definition local_2_written :: "store \<Rightarrow> local_2_output option" where
  "local_2_written s =
     (case documents s (''output'', ''local_output'') of
        Some (Local2Output out) \<Rightarrow> Some out
      | _ \<Rightarrow> None)"

subsection \<open>The sums of the decomposition, as the specification writes them\<close>

text \<open>The value \<^verbatim>\<open>sum_squared_error\<close> returns when the shapes fit.\<close>

definition sse_value :: "ndarray \<Rightarrow> double list \<Rightarrow> double list \<Rightarrow> double" where
  "sse_value biased_X y beta_vector =
     foldl dadd (Finite 0)
       (map2 (\<lambda>yi row. let r = dsub yi (dot row beta_vector) in dmul r r) y (elems biased_X))"

text \<open>
  The specification's sum for voxel \<open>v\<close>: over the subjects \<open>i\<close>, the square of
  \<open>y[i][v] - \<Sum>j. X[i][j] * \<beta>[j]\<close>.
\<close>

definition spec_SSE :: "ndarray \<Rightarrow> ndarray \<Rightarrow> double list \<Rightarrow> nat \<Rightarrow> double" where
  "spec_SSE X y beta v =
     foldl dadd (Finite 0)
       (map (\<lambda>i. let r = dsub (elems y ! i ! v)
                          (foldl dadd (Finite 0)
                             (map (\<lambda>j. dmul (elems X ! i ! j) (beta ! j)) [0..<ncols X]))
                  in dmul r r)
          [0..<nrows X])"

text \<open>
  The specification's sum for voxel \<open>v\<close>: over the subjects \<open>i\<close>, the square of
  \<open>y[i][v] - m\<close>.
\<close>

definition spec_SST :: "ndarray \<Rightarrow> double \<Rightarrow> nat \<Rightarrow> double" where
  "spec_SST y m v =
     foldl dadd (Finite 0)
       (map (\<lambda>i. let d = dsub (elems y ! i ! v) m in dmul d d) [0..<nrows y])"

subsection \<open>A concrete site\<close>

text \<open>
  Three subjects with the design rows \<open>[1,0,1]\<close>, \<open>[1,1,1]\<close>, \<open>[1,0,2]\<close> and the
  single-voxel response \<open>[1,2,3]\<close>.
\<close>

definition scenario_X :: ndarray where
  "scenario_X = \<lparr>nrows = 3, ncols = 3,
     elems = [[Finite 1, Finite 0, Finite 1], [Finite 1, Finite 1, Finite 1],
              [Finite 1, Finite 0, Finite 2]]\<rparr>"

definition scenario_y :: ndarray where
  "scenario_y = \<lparr>nrows = 3, ncols = 1, elems = [[Finite 1], [Finite 2], [Finite 3]]\<rparr>"

definition scenario_state :: phase_state where
  "scenario_state =
     \<lparr>baseDirectory = ''/base'', transferDirectory = ''/transfer'', cacheDirectory = ''/cache''\<rparr>"

definition scenario_args_0 :: "(local_0_input, unit) args" where
  "scenario_args_0 =
     \<lparr>state = scenario_state,
      input = \<lparr>threshold = JFloat (Finite 0.2), voxel_size = JInt 4, lambda = JInt 0\<rparr>,
      cache = ()\<rparr>"

text \<open>The files after the first two phases: the cached arguments and the two matrices.\<close>

definition scenario_store :: store where
  "scenario_store =
     \<lparr>images = Map.empty,
      arrays = [(''/cache'', ''X.npy'') \<mapsto> scenario_X, (''/cache'', ''y.npy'') \<mapsto> scenario_y],
      documents = [(''cache'', ''args_file'') \<mapsto> ArgsFile scenario_args_0]\<rparr>"

definition scenario_args_2 :: "(local_2_input, local_2_cache) args" where
  "scenario_args_2 =
     \<lparr>state = scenario_state,
      input = \<lparr>avg_beta_vector = [[Finite 0, Finite 1, Finite 1]], mean_y_global = [Finite 2]\<rparr>,
      cache = \<lparr>covariates = ''X.npy'', dependents = ''y.npy''\<rparr>\<rparr>"

subsection \<open>Concrete messages\<close>

text \<open>
  A first message with no phase tag, the aggregator's replies of round 0 and round 1, a
  message with a tag that is neither, and a message that carries both tags.
\<close>

definition msg_initial :: json where
  "msg_initial =
     JObject [(''state'', JObject [(''cacheDirectory'', JString ''/cache'')]),
              (''input'', JObject [(''threshold'', JFloat (Finite 0.2)),
                                   (''covariates'', JArray [JArray [JString ''subject0.nii'']])])]"

definition msg_round_0 :: json where
  "msg_round_0 =
     JObject [(''input'', JObject [(''computation_phase'', JString ''remote_0'')]),
              (''state'', JObject [])]"

definition msg_round_1 :: json where
  "msg_round_1 =
     JObject [(''input'', JObject [(''avg_beta_vector'', JArray []),
                                   (''computation_phase'', JString ''remote_1'')]),
              (''cache'', JObject [(''covariates'', JString ''X.npy'')])]"

definition msg_unknown :: json where
  "msg_unknown = JObject [(''input'', JObject [(''computation_phase'', JString ''remote_7'')])]"

definition msg_both :: json where
  "msg_both =
     JObject [(''input'', JObject [(''computation_phase'', JString ''remote_1'')]),
              (''cache'', JObject [(''computation_phase'', JString ''remote_0'')])]"

subsection \<open>The average, as the specification writes it\<close>

text \<open>
  A subject is retained when its image loads and is not entirely NaN, entirely zero or
  empty; \<open>volume_of\<close> is the loaded volume.
\<close>

definition volume_of :: "store \<Rightarrow> string \<Rightarrow> string \<Rightarrow> double list" where
  "volume_of s dir label = (case images s (dir, label) of None \<Rightarrow> [] | Some img \<Rightarrow> fdata img)"

definition retained :: "store \<Rightarrow> string \<Rightarrow> string \<Rightarrow> bool" where
  "retained s dir label \<longleftrightarrow>
     (case images s (dir, label) of None \<Rightarrow> False | Some img \<Rightarrow> \<not> unusable (fdata img))"

text \<open>The rows of the retained subjects and their volumes, in the order of the table.\<close>

definition retained_rows :: "store \<Rightarrow> string \<Rightarrow> covar_table \<Rightarrow> covar_table" where
  "retained_rows s dir covar_x = filter (\<lambda>row. retained s dir (fst row)) covar_x"

definition retained_volumes :: "store \<Rightarrow> string \<Rightarrow> covar_table \<Rightarrow> double list list" where
  "retained_volumes s dir covar_x = map (\<lambda>row. volume_of s dir (fst row)) (retained_rows s dir covar_x)"


text \<open>
  The addition of \<open>add_image\<close> without its failure, and the accumulators it accepts for
  volumes of \<open>n\<close> voxels; both are used to state the invariant of the loop.
\<close>

definition add_volume :: "double list option \<Rightarrow> double list \<Rightarrow> double list option" where
  "add_volume appended_data image_data =
     (case appended_data of
        None \<Rightarrow> Some (map (dadd (Finite 0)) image_data)
      | Some acc \<Rightarrow> Some (map2 dadd acc image_data))"

definition acc_ok :: "nat \<Rightarrow> double list option \<Rightarrow> bool" where
  "acc_ok n appended_data \<longleftrightarrow> (case appended_data of None \<Rightarrow> True | Some acc \<Rightarrow> length acc = n)"

text \<open>Whether every entry of a matrix is a finite number.\<close>

definition all_finite :: "double list list \<Rightarrow> bool" where
  "all_finite M \<longleftrightarrow> list_all (list_all isfinite) M"

subsection \<open>Concrete subjects\<close>

text \<open>
  Five subjects: two usable images, one entirely NaN, one entirely zero and one whose
  file is missing; and a table of the three unusable ones alone.
\<close>

definition scenario_images :: store where
  "scenario_images =
     \<lparr>images =
        [(''/base'', ''s0.nii'') \<mapsto> \<lparr>fdata = [Finite 1, Finite 2], header = ''h0'', affine = []\<rparr>,
         (''/base'', ''s1.nii'') \<mapsto> \<lparr>fdata = [NaN, NaN], header = ''h1'', affine = []\<rparr>,
         (''/base'', ''s2.nii'') \<mapsto> \<lparr>fdata = [Finite 3, Finite 6], header = ''h2'', affine = []\<rparr>,
         (''/base'', ''s3.nii'') \<mapsto> \<lparr>fdata = [Finite 0, Finite 0], header = ''h3'', affine = []\<rparr>],
      arrays = Map.empty,
      documents = [(''cache'', ''args_file'') \<mapsto> ArgsFile scenario_args_0]\<rparr>"


definition scenario_covar_unusable :: covar_table where
  "scenario_covar_unusable =
     [(''s1.nii'', [JInt 31]), (''s3.nii'', [JInt 52]), (''s4.nii'', [JInt 60])]"

text \<open>Two subjects, the response of the first is NaN at the only voxel.\<close>

definition nan_X :: ndarray where
  "nan_X = \<lparr>nrows = 2, ncols = 1, elems = [[Finite 1], [Finite 1]]\<rparr>"

definition nan_y :: ndarray where
  "nan_y = \<lparr>nrows = 2, ncols = 1, elems = [[NaN], [Finite 2]]\<rparr>"

subsection \<open>Facts about the arithmetic and the products\<close>




lemma wf_transpose_nd: "wf_ndarray A \<Longrightarrow> wf_ndarray (transpose_nd A)"
  by (simp add: wf_ndarray_def transpose_nd_def column_def list_all_iff)

lemma XtX_shape:
  "calc_XtransposeX_local X =
     Inr \<lparr>nrows = ncols X, ncols = ncols X,
          elems = map (\<lambda>i. map (\<lambda>j. dot (column X i) (column X j)) [0..<ncols X])
                    [0..<ncols X]\<rparr>"
  by (simp add: calc_XtransposeX_local_def matmul_def transpose_nd_def)

lemma map2_by_index:
  "length xs = n \<Longrightarrow> length ys = n \<Longrightarrow>
   map2 f xs ys = map (\<lambda>i. f (xs ! i) (ys ! i)) [0..<n]"
  by (rule nth_equalityI) simp_all

lemma wf_row_length: "wf_ndarray A \<Longrightarrow> i < nrows A \<Longrightarrow> length (elems A ! i) = ncols A"
  by (simp add: wf_ndarray_def list_all_length)

lemma dot_by_index:
  "length row = n \<Longrightarrow> length beta = n \<Longrightarrow>
   dot row beta = foldl dadd (Finite 0) (map (\<lambda>j. dmul (row ! j) (beta ! j)) [0..<n])"
  by (simp add: dot_def map2_by_index)


subsection \<open>Symmetry of the Gram matrix\<close>


subsection \<open>The dispatcher's rule\<close>

text \<open>
  C1: with \<open>tags\<close> the values of the field \<^verbatim>\<open>computation_phase\<close> found in the
  message, the dispatcher runs \<^verbatim>\<open>local_0\<close> when there is none, else \<^verbatim>\<open>local_1\<close>
  when \<^verbatim>\<open>remote_0\<close> is among them, else \<^verbatim>\<open>local_2\<close> when \<^verbatim>\<open>remote_1\<close> is among
  them, and otherwise raises the protocol error and returns no document. In each case
  exactly one of the four happens.
\<close>

theorem main_selects:
  fixes m :: json
  defines "tags \<equiv> list_recursive m ''computation_phase''"
  shows "(tags = [] \<longrightarrow> main h0 h1 h2 m = Inr (h0 m))
       \<and> (tags \<noteq> [] \<and> JString ''remote_0'' \<in> set tags \<longrightarrow> main h0 h1 h2 m = Inr (h1 m))
       \<and> (tags \<noteq> [] \<and> JString ''remote_0'' \<notin> set tags \<and> JString ''remote_1'' \<in> set tags
            \<longrightarrow> main h0 h1 h2 m = Inr (h2 m))
       \<and> (tags \<noteq> [] \<and> JString ''remote_0'' \<notin> set tags \<and> JString ''remote_1'' \<notin> set tags
            \<longrightarrow> main h0 h1 h2 m = Inl protocol_error)"
  by (simp add: main_def tags_def Let_def)

subsection \<open>The dispatcher on concrete messages\<close>

lemma tags_examples:
  "list_recursive msg_initial ''computation_phase'' = []"
  "list_recursive msg_round_0 ''computation_phase'' = [JString ''remote_0'']"
  "list_recursive msg_round_1 ''computation_phase'' = [JString ''remote_1'']"
  "list_recursive msg_unknown ''computation_phase'' = [JString ''remote_7'']"
  "list_recursive msg_both ''computation_phase'' = [JString ''remote_1'', JString ''remote_0'']"
  by (simp_all add: msg_initial_def msg_round_0_def msg_round_1_def msg_unknown_def msg_both_def)

theorem main_selects_witness:
  "main (\<lambda>_. ''local_0'') (\<lambda>_. ''local_1'') (\<lambda>_. ''local_2'') msg_initial = Inr ''local_0''
 \<and> main (\<lambda>_. ''local_0'') (\<lambda>_. ''local_1'') (\<lambda>_. ''local_2'') msg_round_0 = Inr ''local_1''
 \<and> main (\<lambda>_. ''local_0'') (\<lambda>_. ''local_1'') (\<lambda>_. ''local_2'') msg_round_1 = Inr ''local_2''
 \<and> main (\<lambda>_. ''local_0'') (\<lambda>_. ''local_1'') (\<lambda>_. ''local_2'') msg_unknown
      = Inl (ValueError ''Error occurred at Local'')"
  using main_selects [of msg_initial "\<lambda>_. ''local_0''" "\<lambda>_. ''local_1''" "\<lambda>_. ''local_2''"]
    main_selects [of msg_round_0 "\<lambda>_. ''local_0''" "\<lambda>_. ''local_1''" "\<lambda>_. ''local_2''"]
    main_selects [of msg_round_1 "\<lambda>_. ''local_0''" "\<lambda>_. ''local_1''" "\<lambda>_. ''local_2''"]
    main_selects [of msg_unknown "\<lambda>_. ''local_0''" "\<lambda>_. ''local_1''" "\<lambda>_. ''local_2''"]
  by (simp add: tags_examples protocol_error_def)

text \<open>
  C9: when both \<^verbatim>\<open>remote_0\<close> and \<^verbatim>\<open>remote_1\<close> are among the values found for
  \<^verbatim>\<open>computation_phase\<close>, the dispatcher runs \<^verbatim>\<open>local_1\<close>: the test for the tag of
  round 0 comes first.
\<close>

theorem round_0_takes_precedence:
  "JString ''remote_0'' \<in> set (list_recursive m ''computation_phase'') \<Longrightarrow>
   JString ''remote_1'' \<in> set (list_recursive m ''computation_phase'') \<Longrightarrow>
   main h0 h1 h2 m = Inr (h1 m)"
  by (auto simp: main_def Let_def)

theorem round_0_takes_precedence_witness:
  "main (\<lambda>_. ''local_0'') (\<lambda>_. ''local_1'') (\<lambda>_. ''local_2'') msg_both = Inr ''local_1''"
  using round_0_takes_precedence
    [of msg_both "\<lambda>_. ''local_0''" "\<lambda>_. ''local_1''" "\<lambda>_. ''local_2''"]
  by (simp add: tags_examples)

subsection \<open>The decomposition of the error\<close>

lemma sum_squared_error_Inr:
  "sum_squared_error X ycol beta = Inr r \<longleftrightarrow>
     length beta = ncols X \<and> length ycol = nrows X \<and> r = sse_value X ycol beta"
  by (auto simp: sum_squared_error_def sse_value_def)

lemma voxel_loop_result:
  "voxel_loop X y betas means vs SSE SST = Inr (SSE', SST') \<Longrightarrow>
     SSE' = SSE @ map (\<lambda>v. sse_value X (column y v) (betas ! v)) vs
   \<and> SST' = SST @ map (\<lambda>v. sum_squared_total (column y v) (means ! v)) vs"
proof (induction vs arbitrary: SSE SST)
  case Nil
  then show ?case by simp
next
  case (Cons v vs)
  from Cons.prems obtain sse where
    sse: "sum_squared_error X (column y v) (betas ! v) = Inr sse" and
    rest: "voxel_loop X y betas means vs (SSE @ [sse])
             (SST @ [sum_squared_total (column y v) (means ! v)]) = Inr (SSE', SST')"
    by (auto split: if_splits sum.splits)
  from sse have "sse = sse_value X (column y v) (betas ! v)"
    by (simp add: sum_squared_error_Inr)
  with Cons.IH [OF rest] show ?case by simp
qed

lemma voxel_loop_succeeds:
  "\<forall>v\<in>set vs. v < length betas \<and> v < length means
       \<and> length (betas ! v) = ncols X \<and> length (column y v) = nrows X \<Longrightarrow>
   voxel_loop X y betas means vs SSE SST =
     Inr (SSE @ map (\<lambda>v. sse_value X (column y v) (betas ! v)) vs,
          SST @ map (\<lambda>v. sum_squared_total (column y v) (means ! v)) vs)"
proof (induction vs arbitrary: SSE SST)
  case Nil
  then show ?case by simp
next
  case (Cons v vs)
  then have "sum_squared_error X (column y v) (betas ! v)
             = Inr (sse_value X (column y v) (betas ! v))"
    by (simp add: sum_squared_error_Inr)
  with Cons show ?case by simp
qed

lemma sse_value_spec:
  assumes "wf_ndarray X" "wf_ndarray y" "nrows y = nrows X" "length beta = ncols X"
  shows "sse_value X (column y v) beta = spec_SSE X y beta v"
proof -
  have len: "length (column y v) = nrows X" "length (elems X) = nrows X"
    using assms by (simp_all add: column_def wf_ndarray_def)
  have "map2 (\<lambda>yi row. let r = dsub yi (dot row beta) in dmul r r) (column y v) (elems X)
        = map (\<lambda>i. let r = dsub (column y v ! i) (dot (elems X ! i) beta) in dmul r r)
            [0..<nrows X]"
    using len by (rule map2_by_index)
  also have "\<dots> = map (\<lambda>i. let r = dsub (elems y ! i ! v)
                          (foldl dadd (Finite 0)
                             (map (\<lambda>j. dmul (elems X ! i ! j) (beta ! j)) [0..<ncols X]))
                  in dmul r r) [0..<nrows X]"
  proof (rule map_cong [OF refl])
    fix i assume "i \<in> set [0..<nrows X]"
    then have i: "i < nrows X" by simp
    then have "column y v ! i = elems y ! i ! v"
      using assms by (simp add: column_def wf_ndarray_def)
    moreover have "dot (elems X ! i) beta
        = foldl dadd (Finite 0) (map (\<lambda>j. dmul (elems X ! i ! j) (beta ! j)) [0..<ncols X])"
      using assms i by (simp add: dot_by_index wf_row_length)
    ultimately show "(let r = dsub (column y v ! i) (dot (elems X ! i) beta) in dmul r r)
      = (let r = dsub (elems y ! i ! v)
                          (foldl dadd (Finite 0)
                             (map (\<lambda>j. dmul (elems X ! i ! j) (beta ! j)) [0..<ncols X]))
                  in dmul r r)"
      by simp
  qed
  finally show ?thesis
    by (simp add: sse_value_def spec_SSE_def)
qed

lemma sum_squared_total_spec:
  assumes "wf_ndarray y"
  shows "sum_squared_total (column y v) m = spec_SST y m v"
proof -
  have "length (elems y) = nrows y"
    using assms by (simp add: wf_ndarray_def)
  then have "map (\<lambda>x. let d = dsub x m in dmul d d) (column y v)
        = map (\<lambda>i. let d = dsub (elems y ! i ! v) m in dmul d d) [0..<nrows y]"
    by (intro nth_equalityI) (simp_all add: column_def)
  then show ?thesis
    by (simp add: sum_squared_total_def spec_SST_def)
qed

lemma varX_always:
  "matmul (transpose_nd X) X =
     Inr \<lparr>nrows = ncols X, ncols = ncols X,
          elems = map (\<lambda>i. map (\<lambda>j. dot (column X i) (column X j)) [0..<ncols X])
                    [0..<ncols X]\<rparr>"
  by (simp add: matmul_def transpose_nd_def)

text \<open>
  C5: when the cached design matrix \<open>X\<close> and response matrix \<open>y\<close> have the same subjects
  and the aggregator supplies one coefficient vector of the width of \<open>X\<close> and one mean
  for every voxel, \<^verbatim>\<open>local_2\<close> succeeds and writes, for every voxel \<open>v\<close>,
  \<open>SSE_local[v]\<close> equal to the sum over the subjects of the squared residual of \<open>y\<close>
  against \<open>X\<close> times the global coefficient vector of \<open>v\<close>, and \<open>SST_local[v]\<close> equal to
  the sum over the subjects of the squared difference of \<open>y\<close> and the global mean of \<open>v\<close>.
\<close>

theorem local_2_decomposition:
  assumes X: "arrays s (cacheDirectory (state a), covariates (cache a)) = Some X"
    and y: "arrays s (cacheDirectory (state a), dependents (cache a)) = Some y"
    and wf: "wf_ndarray X" "wf_ndarray y" "nrows y = nrows X"
    and betas: "ncols y \<le> length (avg_beta_vector (input a))"
      "\<forall>v<ncols y. length (avg_beta_vector (input a) ! v) = ncols X"
    and means: "ncols y \<le> length (mean_y_global (input a))"
  shows "\<exists>d out. local_2 a s = (Inr d, write_file (Local2Output out) ''output'' ''local_output'' s)
     \<and> (\<forall>v<ncols y.
           SSE_local out ! v = spec_SSE X y (avg_beta_vector (input a) ! v) v
         \<and> SST_local out ! v = spec_SST y (mean_y_global (input a) ! v) v)"
proof -
  let ?betas = "avg_beta_vector (input a)" and ?means = "mean_y_global (input a)"
  have "\<forall>v\<in>set [0..<ncols y]. v < length ?betas \<and> v < length ?means
       \<and> length (?betas ! v) = ncols X \<and> length (column y v) = nrows X"
    using wf betas means by (auto simp: column_def wf_ndarray_def)
  then have loop: "voxel_loop X y ?betas ?means [0..<ncols y] [] [] =
     Inr ([] @ map (\<lambda>v. sse_value X (column y v) (?betas ! v)) [0..<ncols y],
          [] @ map (\<lambda>v. sum_squared_total (column y v) (?means ! v)) [0..<ncols y])"
    by (rule voxel_loop_succeeds)
  let ?out = "\<lparr>SSE_local = map (\<lambda>v. sse_value X (column y v) (?betas ! v)) [0..<ncols y],
      SST_local = map (\<lambda>v. sum_squared_total (column y v) (?means ! v)) [0..<ncols y],
      varX_matrix_local = tolist \<lparr>nrows = ncols X, ncols = ncols X,
          elems = map (\<lambda>i. map (\<lambda>j. dot (column X i) (column X j)) [0..<ncols X])
                    [0..<ncols X]\<rparr>\<rparr>"
  have run: "local_2 a s =
      (Inr \<lparr>output_dict = \<lparr>computation_phase = ''local_2''\<rparr>, cache_dict = []\<rparr>,
       write_file (Local2Output ?out) ''output'' ''local_output'' s)"
    using X y loop by (simp add: local_2_def np_load_def varX_always)
  have "\<forall>v<ncols y.
           SSE_local ?out ! v = spec_SSE X y (?betas ! v) v
         \<and> SST_local ?out ! v = spec_SST y (?means ! v) v"
    using wf betas by (simp add: sse_value_spec sum_squared_total_spec)
  with run show ?thesis by blast
qed

lemma scenario_hyps:
  "arrays scenario_store
     (cacheDirectory (state scenario_args_2), covariates (cache scenario_args_2))
   = Some scenario_X"
  "arrays scenario_store
     (cacheDirectory (state scenario_args_2), dependents (cache scenario_args_2))
   = Some scenario_y"
  "wf_ndarray scenario_X" "wf_ndarray scenario_y" "nrows scenario_y = nrows scenario_X"
  "ncols scenario_y \<le> length (avg_beta_vector (input scenario_args_2))"
  "\<forall>v<ncols scenario_y.
     length (avg_beta_vector (input scenario_args_2) ! v) = ncols scenario_X"
  "ncols scenario_y \<le> length (mean_y_global (input scenario_args_2))"
  by (simp_all add: scenario_store_def scenario_args_2_def scenario_state_def
      scenario_X_def scenario_y_def wf_ndarray_def)

lemma spec_SSE_scenario:
  "spec_SSE scenario_X scenario_y [Finite 0, Finite 1, Finite 1] 0 = Finite 1"
  by (simp add: spec_SSE_def scenario_X_def scenario_y_def dsub_def upt_rec numeral_3_eq_3)

lemma spec_SST_scenario: "spec_SST scenario_y (Finite 2) 0 = Finite 2"
  by (simp add: spec_SST_def scenario_y_def dsub_def upt_rec numeral_3_eq_3)

theorem local_2_decomposition_witness:
  "\<exists>d out. local_2 scenario_args_2 scenario_store
        = (Inr d, write_file (Local2Output out) ''output'' ''local_output'' scenario_store)
     \<and> SSE_local out ! 0 = Finite 1 \<and> SST_local out ! 0 = Finite 2"
proof -
  from local_2_decomposition [OF scenario_hyps]
  obtain d out where run: "local_2 scenario_args_2 scenario_store
        = (Inr d, write_file (Local2Output out) ''output'' ''local_output'' scenario_store)"
    and vals: "\<forall>v<ncols scenario_y.
           SSE_local out ! v
             = spec_SSE scenario_X scenario_y (avg_beta_vector (input scenario_args_2) ! v) v
         \<and> SST_local out ! v
             = spec_SST scenario_y (mean_y_global (input scenario_args_2) ! v) v"
    by blast
  have "(0::nat) < ncols scenario_y" by (simp add: scenario_y_def)
  with vals have "SSE_local out ! 0
        = spec_SSE scenario_X scenario_y (avg_beta_vector (input scenario_args_2) ! 0) 0
      \<and> SST_local out ! 0
        = spec_SST scenario_y (mean_y_global (input scenario_args_2) ! 0) 0"
    by blast
  then have "SSE_local out ! 0 = Finite 1 \<and> SST_local out ! 0 = Finite 2"
    by (simp add: scenario_args_2_def spec_SSE_scenario spec_SST_scenario)
  with run show ?thesis by blast
qed

subsection \<open>The loop over the subjects\<close>

lemma add_image_ok:
  "acc_ok (length v) acc \<Longrightarrow> add_image acc v = Inr (add_volume acc v)"
  by (auto simp: acc_ok_def add_image_def add_volume_def split: option.splits)

lemma acc_ok_add_volume: "acc_ok (length v) acc \<Longrightarrow> acc_ok (length v) (add_volume acc v)"
  by (simp add: acc_ok_def add_volume_def split: option.splits)

lemma drop_index_present:
  "label \<in> fst ` set covar \<Longrightarrow> drop_index label covar = Inr (filter (\<lambda>row. fst row \<noteq> label) covar)"
  by (simp add: drop_index_def)

lemma average_loop_result:
  assumes "distinct labels" "set labels \<subseteq> fst ` set covar"
    "\<forall>l\<in>set labels. retained s dir l \<longrightarrow> length (volume_of s dir l) = n"
    "acc_ok n acc"
  shows "average_loop s dir labels covar acc =
     Inr (filter (\<lambda>row. fst row \<notin> set labels \<or> retained s dir (fst row)) covar,
          foldl add_volume acc (map (volume_of s dir) (filter (retained s dir) labels)))"
  using assms
proof (induction labels arbitrary: covar acc)
  case Nil
  then show ?case by simp
next
  case (Cons l ls)
  show ?case
  proof (cases "retained s dir l")
    case False
    have drop: "drop_index l covar = Inr (filter (\<lambda>row. fst row \<noteq> l) covar)"
      using Cons.prems(2) by (simp add: drop_index_present)
    have step: "average_loop s dir (l # ls) covar acc
        = average_loop s dir ls (filter (\<lambda>row. fst row \<noteq> l) covar) acc"
      using False drop
      by (auto simp: retained_def nib_load_def split: option.splits)
    have sub: "set ls \<subseteq> fst ` set (filter (\<lambda>row. fst row \<noteq> l) covar)"
    proof
      fix x assume x: "x \<in> set ls"
      with Cons.prems(2) obtain row where row: "row \<in> set covar" "fst row = x"
        by auto
      moreover from x Cons.prems(1) have "x \<noteq> l" by auto
      ultimately have "row \<in> set (filter (\<lambda>row. fst row \<noteq> l) covar)" by simp
      with row show "x \<in> fst ` set (filter (\<lambda>row. fst row \<noteq> l) covar)"
        by (metis imageI)
    qed
    have "average_loop s dir ls (filter (\<lambda>row. fst row \<noteq> l) covar) acc =
       Inr (filter (\<lambda>row. fst row \<notin> set ls \<or> retained s dir (fst row))
              (filter (\<lambda>row. fst row \<noteq> l) covar),
          foldl add_volume acc (map (volume_of s dir) (filter (retained s dir) ls)))"
      using Cons.prems by (intro Cons.IH sub) simp_all
    moreover have "filter (\<lambda>row. fst row \<notin> set ls \<or> retained s dir (fst row))
              (filter (\<lambda>row. fst row \<noteq> l) covar)
        = filter (\<lambda>row. fst row \<notin> set (l # ls) \<or> retained s dir (fst row)) covar"
      using False by (auto intro: filter_cong)
    ultimately show ?thesis
      using step False by simp
  next
    case True
    then obtain img where img: "images s (dir, l) = Some img" "\<not> unusable (fdata img)"
      by (auto simp: retained_def split: option.splits)
    have vol: "volume_of s dir l = fdata img"
      using img by (simp add: volume_of_def)
    have len: "length (fdata img) = n"
      using Cons.prems(3) True vol by simp
    have step: "average_loop s dir (l # ls) covar acc
        = average_loop s dir ls covar (add_volume acc (fdata img))"
      using img len Cons.prems(4) by (simp add: nib_load_def add_image_ok)
    have ok: "acc_ok n (add_volume acc (fdata img))"
      using len Cons.prems(4) acc_ok_add_volume [of "fdata img" acc] by simp
    have "average_loop s dir ls covar (add_volume acc (fdata img)) =
       Inr (filter (\<lambda>row. fst row \<notin> set ls \<or> retained s dir (fst row)) covar,
          foldl add_volume (add_volume acc (fdata img))
            (map (volume_of s dir) (filter (retained s dir) ls)))"
      using Cons.prems ok by (intro Cons.IH) auto
    moreover have "filter (\<lambda>row. fst row \<notin> set ls \<or> retained s dir (fst row)) covar
        = filter (\<lambda>row. fst row \<notin> set (l # ls) \<or> retained s dir (fst row)) covar"
      using True by (auto intro: filter_cong)
    ultimately show ?thesis
      using step True vol by simp
  qed
qed




lemma average_loop_table:
  assumes "distinct (map fst covar_x)"
    "\<forall>l\<in>set (map fst covar_x). retained s dir l \<longrightarrow> length (volume_of s dir l) = n"
  shows "average_loop s dir (map fst covar_x) covar_x None =
     Inr (retained_rows s dir covar_x, foldl add_volume None (retained_volumes s dir covar_x))"
proof -
  have "average_loop s dir (map fst covar_x) covar_x None =
     Inr (filter (\<lambda>row. fst row \<notin> set (map fst covar_x) \<or> retained s dir (fst row)) covar_x,
          foldl add_volume None
            (map (volume_of s dir) (filter (retained s dir) (map fst covar_x))))"
    using assms by (intro average_loop_result [where n = n]) (simp_all add: acc_ok_def)
  moreover have "filter (\<lambda>row. fst row \<notin> set (map fst covar_x) \<or> retained s dir (fst row)) covar_x
      = retained_rows s dir covar_x"
    unfolding retained_rows_def by (rule filter_cong) auto
  moreover have "map (volume_of s dir) (filter (retained s dir) (map fst covar_x))
      = retained_volumes s dir covar_x"
    by (simp add: retained_volumes_def retained_rows_def filter_map comp_def)
  ultimately show ?thesis by simp
qed

lemma average_loop_none_retained:
  "\<forall>l\<in>set labels. \<not> retained s dir l \<Longrightarrow>
   (\<exists>k. average_loop s dir labels covar acc = Inl (KeyError k))
   \<or> average_loop s dir labels covar acc
       = Inr (filter (\<lambda>row. fst row \<notin> set labels) covar, acc)"
proof (induction labels arbitrary: covar)
  case Nil
  then show ?case by simp
next
  case (Cons l ls)
  then have l: "\<not> retained s dir l" by simp
  have step: "average_loop s dir (l # ls) covar acc
      = (case drop_index l covar of Inl e \<Rightarrow> Inl e
         | Inr covar' \<Rightarrow> average_loop s dir ls covar' acc)"
    using l by (auto simp: retained_def nib_load_def split: option.splits)
  show ?case
  proof (cases "l \<in> set (map fst covar)")
    case False
    then show ?thesis using step by (simp add: drop_index_def)
  next
    case True
    then have "average_loop s dir (l # ls) covar acc
        = average_loop s dir ls (filter (\<lambda>row. fst row \<noteq> l) covar) acc"
      using step by (simp add: drop_index_def)
    moreover have "filter (\<lambda>row. fst row \<notin> set ls) (filter (\<lambda>row. fst row \<noteq> l) covar)
        = filter (\<lambda>row. fst row \<notin> set (l # ls)) covar"
      by (auto intro: filter_cong)
    ultimately show ?thesis
      using Cons.IH [of "filter (\<lambda>row. fst row \<noteq> l) covar"] Cons.prems by auto
  qed
qed

lemma average_loop_keeps_Some:
  "average_loop s dir labels covar (Some t) = Inr (covar', acc') \<Longrightarrow> acc' \<noteq> None"
proof (induction labels arbitrary: covar t)
  case Nil
  then show ?case by auto
next
  case (Cons l ls)
  then show ?case
    by (auto simp: add_image_def split: sum.splits if_splits)
qed

lemma average_loop_None:
  "average_loop s dir labels covar None = Inr (covar', None) \<Longrightarrow>
   covar' = filter (\<lambda>row. fst row \<notin> set labels) covar"
proof (induction labels arbitrary: covar)
  case Nil
  then show ?case by simp
next
  case (Cons l ls)
  show ?case
  proof (cases "retained s dir l")
    case True
    then obtain img where "images s (dir, l) = Some img" "\<not> unusable (fdata img)"
      by (auto simp: retained_def split: option.splits)
    with Cons.prems have
      "average_loop s dir ls covar (Some (map (dadd (Finite 0)) (fdata img))) = Inr (covar', None)"
      by (simp add: nib_load_def add_image_def)
    from average_loop_keeps_Some [OF this] show ?thesis by simp
  next
    case False
    with Cons.prems have
      "average_loop s dir ls (filter (\<lambda>row. fst row \<noteq> l) covar) None = Inr (covar', None)"
      by (auto simp: retained_def nib_load_def drop_index_def
          split: option.splits if_splits sum.splits)
    from Cons.IH [OF this] have
      "covar' = filter (\<lambda>row. fst row \<notin> set ls) (filter (\<lambda>row. fst row \<noteq> l) covar)" .
    also have "\<dots> = filter (\<lambda>row. fst row \<notin> set (l # ls)) covar"
      by (auto intro: filter_cong)
    finally show ?thesis .
  qed
qed

text \<open>The TypeError branch of \<open>average_nifti\<close> is never taken.\<close>

lemma average_nifti_no_TypeError: "fst (average_nifti st covar_x s) \<noteq> Inl TypeError"
proof (cases "average_loop s (baseDirectory st) (map fst covar_x) covar_x None")
  case (Inl e)
  have "e \<noteq> TypeError" if "average_loop s dir labels covar acc = Inl e" for dir labels covar acc
    using that
  proof (induction labels arbitrary: covar acc)
    case Nil
    then show ?case by simp
  next
    case (Cons l ls)
    then show ?case
      by (auto simp: nib_load_def drop_index_def add_image_def
          split: option.splits if_splits sum.splits)
  qed
  with Inl show ?thesis by (auto simp: average_nifti_def)
next
  case (Inr r)
  obtain covar' acc' where r: "r = (covar', acc')" by (cases r)
  show ?thesis
  proof (cases acc')
    case None
    with Inr r have "covar' = filter (\<lambda>row. fst row \<notin> set (map fst covar_x)) covar_x"
      by (intro average_loop_None) simp
    then have "covar' = []" by (simp add: filter_empty_conv)
    with Inr r show ?thesis by (simp add: average_nifti_def)
  next
    case (Some t)
    with Inr r show ?thesis
      by (auto simp: average_nifti_def nib_load_def split: list.splits option.splits)
  qed
qed

lemma unusable_iff:
  "unusable v \<longleftrightarrow> (\<forall>x\<in>set v. x = NaN) \<or> (\<forall>x\<in>set v. x = Finite 0) \<or> v = []"
proof -
  have "list_all isnan v \<longleftrightarrow> (\<forall>x\<in>set v. x = NaN)"
    by (auto simp: list_all_iff elim: isnan.elims)
  moreover have "count_nonzero v = 0 \<longleftrightarrow> (\<forall>x\<in>set v. x = Finite 0)"
    by (auto simp: count_nonzero_def filter_empty_conv)
  ultimately show ?thesis
    by (simp add: unusable_def)
qed

lemma retained_scenario:
  "retained scenario_images ''/base'' ''s0.nii''"
  "\<not> retained scenario_images ''/base'' ''s1.nii''"
  "retained scenario_images ''/base'' ''s2.nii''"
  "\<not> retained scenario_images ''/base'' ''s3.nii''"
  "\<not> retained scenario_images ''/base'' ''s4.nii''"
  by (simp_all add: retained_def scenario_images_def unusable_def count_nonzero_def)



subsection \<open>No usable subject\<close>

text \<open>
  C3: when no subject of the table is retained, \<^verbatim>\<open>average_nifti\<close> and with it
  \<^verbatim>\<open>local_0\<close> fail and write nothing. The exception is the IndexError of
  \<^verbatim>\<open>covar_x.index[0]\<close> on the emptied table (a KeyError of \<^verbatim>\<open>drop\<close> when a label
  occurs twice in the index); it is not the ValueError of the dispatcher, and the
  dispatcher never raises it.
\<close>

theorem average_nifti_all_excluded:
  assumes "\<forall>l\<in>set (map fst covar_x). \<not> retained s (baseDirectory (state a)) l"
  shows "\<exists>e. average_nifti (state a) covar_x s = (Inl e, s)
       \<and> local_0 categorical covar_x a s = (Inl e, s)
       \<and> (e = IndexError \<or> (\<exists>k. e = KeyError k))
       \<and> (distinct (map fst covar_x) \<longrightarrow> e = IndexError)
       \<and> e \<noteq> protocol_error
       \<and> main h0 h1 h2 m \<noteq> Inl e"
proof -
  let ?loop = "average_loop s (baseDirectory (state a)) (map fst covar_x) covar_x None"
  have "filter (\<lambda>row. fst row \<notin> set (map fst covar_x)) covar_x = []"
    by (simp add: filter_empty_conv)
  with average_loop_none_retained [OF assms, of covar_x None]
  have cases: "(\<exists>k. ?loop = Inl (KeyError k)) \<or> ?loop = Inr ([], None)"
    by simp
  then obtain e where avg: "average_nifti (state a) covar_x s = (Inl e, s)"
    and e: "e = IndexError \<or> (\<exists>k. e = KeyError k)"
    by (auto simp: average_nifti_def)
  have "e = IndexError" if "distinct (map fst covar_x)"
  proof -
    have "?loop = Inr (retained_rows s (baseDirectory (state a)) covar_x,
          foldl add_volume None (retained_volumes s (baseDirectory (state a)) covar_x))"
      using that assms by (intro average_loop_table [where n = 0]) simp_all
    moreover have "retained_rows s (baseDirectory (state a)) covar_x = []"
      using assms by (simp add: retained_rows_def)
    ultimately have "average_nifti (state a) covar_x s = (Inl IndexError, s)"
      by (simp add: average_nifti_def)
    with avg show ?thesis by simp
  qed
  moreover from avg have "local_0 categorical covar_x a s = (Inl e, s)"
    by (simp add: local_0_def)
  moreover from e have "e \<noteq> protocol_error"
    by (auto simp: protocol_error_def)
  moreover from e have "main h0 h1 h2 m \<noteq> Inl e"
    by (auto simp: main_def Let_def protocol_error_def)
  ultimately show ?thesis using avg e by blast
qed

theorem average_nifti_all_excluded_witness:
  "average_nifti scenario_state scenario_covar_unusable scenario_images
     = (Inl IndexError, scenario_images)
 \<and> local_0 JNull scenario_covar_unusable scenario_args_0 scenario_images
     = (Inl IndexError, scenario_images)"
proof -
  have st: "state scenario_args_0 = scenario_state"
    by (simp add: scenario_args_0_def)
  have none: "\<forall>l\<in>set (map fst scenario_covar_unusable).
      \<not> retained scenario_images (baseDirectory (state scenario_args_0)) l"
    by (simp add: st scenario_covar_unusable_def scenario_state_def retained_scenario)
  have "distinct (map fst scenario_covar_unusable)"
    by (simp add: scenario_covar_unusable_def)
  with average_nifti_all_excluded [OF none, where categorical = JNull]
  show ?thesis by (auto simp: st)
qed

subsection \<open>The average of the retained subjects\<close>




subsection \<open>The statistics phase emits the products as they are\<close>

lemma Xty_aligned:
  "nrows y = nrows X \<Longrightarrow>
   calc_Xtransposey_local X y =
     Inr \<lparr>nrows = ncols X, ncols = ncols y,
          elems = map (\<lambda>i. map (\<lambda>j. dot (column X i) (column y j)) [0..<ncols y])
                    [0..<ncols X]\<rparr>"
  by (simp add: calc_Xtransposey_local_def matmul_def transpose_nd_def)

lemma XtX_scenario:
  "calc_XtransposeX_local scenario_X =
     Inr \<lparr>nrows = 3, ncols = 3,
          elems = [[Finite 3, Finite 1, Finite 4], [Finite 1, Finite 1, Finite 1],
                   [Finite 4, Finite 1, Finite 6]]\<rparr>"
  by (simp add: XtX_shape scenario_X_def column_def dot_def upt_rec numeral_3_eq_3)

lemma Xty_scenario:
  "calc_Xtransposey_local scenario_X scenario_y =
     Inr \<lparr>nrows = 3, ncols = 1, elems = [[Finite 6], [Finite 2], [Finite 9]]\<rparr>"
  by (simp add: Xty_aligned scenario_X_def scenario_y_def column_def dot_def upt_rec
      numeral_3_eq_3)

lemma Xty_nan:
  "calc_Xtransposey_local nan_X nan_y = Inr \<lparr>nrows = 1, ncols = 1, elems = [[NaN]]\<rparr>"
  by (simp add: Xty_aligned nan_X_def nan_y_def column_def dot_def)

lemma XtX_nan:
  "calc_XtransposeX_local nan_X = Inr \<lparr>nrows = 1, ncols = 1, elems = [[Finite 2]]\<rparr>"
  by (simp add: XtX_shape nan_X_def column_def dot_def)

text \<open>
  C2, as the code has it: \<^verbatim>\<open>local_1\<close> has no test for NaN or infinity. Whenever the
  cached arguments are there and the design and response matrices have the same number
  of rows, the phase succeeds and the document it writes holds
  \<^verbatim>\<open>calc_XtransposeX_local(biased_X).tolist()\<close> and
  \<^verbatim>\<open>calc_Xtransposey_local(biased_X, y).tolist()\<close> exactly as computed, whatever
  their entries are.
\<close>

theorem local_1_emits_products:
  assumes "documents s (''cache'', ''args_file'') = Some (ArgsFile original_args)"
    and "nrows y = nrows biased_X"
  shows "\<exists>d out XtX Xty.
       fst (local_1 labels biased_X y meanY_vector lenY_vector stats a s) = Inr d
     \<and> local_1_written (snd (local_1 labels biased_X y meanY_vector lenY_vector stats a s))
         = Some out
     \<and> calc_XtransposeX_local biased_X = Inr XtX
     \<and> calc_Xtransposey_local biased_X y = Inr Xty
     \<and> XtransposeX_local out = tolist XtX
     \<and> Xtransposey_local out = tolist Xty"
  using assms
  by (simp add: local_1_def read_file_def XtX_shape Xty_aligned local_1_written_def
      write_file_def np_save_def)

theorem local_1_emits_products_witness:
  "\<exists>d out.
       fst (local_1 [''const'', ''sex'', ''age''] scenario_X scenario_y [Finite 2] [3] JNull
              scenario_args_0 scenario_store) = Inr d
     \<and> local_1_written (snd (local_1 [''const'', ''sex'', ''age''] scenario_X scenario_y
              [Finite 2] [3] JNull scenario_args_0 scenario_store)) = Some out
     \<and> XtransposeX_local out = [[Finite 3, Finite 1, Finite 4], [Finite 1, Finite 1, Finite 1],
                   [Finite 4, Finite 1, Finite 6]]
     \<and> Xtransposey_local out = [[Finite 6], [Finite 2], [Finite 9]]"
proof -
  have "documents scenario_store (''cache'', ''args_file'') = Some (ArgsFile scenario_args_0)"
    by (simp add: scenario_store_def)
  moreover have "nrows scenario_y = nrows scenario_X"
    by (simp add: scenario_X_def scenario_y_def)
  ultimately show ?thesis
    using local_1_emits_products [of scenario_store scenario_args_0 scenario_y scenario_X
        "[''const'', ''sex'', ''age'']" "[Finite 2]" "[3]" JNull scenario_args_0]
    by (auto simp: XtX_scenario Xty_scenario tolist_def)
qed

text \<open>
  The claim as stated fails: with two subjects whose design is the constant column and
  the response NaN for the first, the phase succeeds and the written
  \<^verbatim>\<open>Xtransposey_local\<close> is \<open>[[NaN]]\<close>.
\<close>

theorem local_1_emits_nan:
  "fst (local_1 [''const''] nan_X nan_y [NaN] [2] JNull scenario_args_0 scenario_store)
     = Inr \<lparr>output_dict = \<lparr>computation_phase = ''local_1''\<rparr>,
            cache_dict = [(''covariates'', ''X.npy''), (''dependents'', ''y.npy'')]\<rparr>
 \<and> map_option Xtransposey_local
      (local_1_written
         (snd (local_1 [''const''] nan_X nan_y [NaN] [2] JNull scenario_args_0 scenario_store)))
     = Some [[NaN]]
 \<and> \<not> all_finite [[NaN]]"
  by (simp add: local_1_def read_file_def scenario_store_def XtX_nan Xty_nan
      local_1_written_def write_file_def np_save_def tolist_def all_finite_def)

subsection \<open>Shapes and writes of the decomposition phase\<close>

lemma scenario_local_2_runs:
  "fst (local_2 scenario_args_2 scenario_store)
     = Inr \<lparr>output_dict = \<lparr>computation_phase = ''local_2''\<rparr>, cache_dict = []\<rparr>"
proof -
  have "\<forall>v\<in>set [0..<ncols scenario_y].
       v < length (avg_beta_vector (input scenario_args_2))
     \<and> v < length (mean_y_global (input scenario_args_2))
     \<and> length (avg_beta_vector (input scenario_args_2) ! v) = ncols scenario_X
     \<and> length (column scenario_y v) = nrows scenario_X"
    by (simp add: scenario_args_2_def scenario_X_def scenario_y_def column_def)
  from voxel_loop_succeeds [OF this, of "[]" "[]"]
  show ?thesis
    using scenario_hyps(1,2) by (simp add: local_2_def np_load_def varX_always)
qed

text \<open>
  C10: whenever \<^verbatim>\<open>local_2\<close> succeeds, the cached matrices \<open>X\<close> and \<open>y\<close> were there,
  the written \<^verbatim>\<open>SSE_local\<close> and \<^verbatim>\<open>SST_local\<close> have one entry per column of \<open>y\<close>,
  and \<^verbatim>\<open>varX_matrix_local\<close> has as many rows as \<open>X\<close> has columns, each of that length.
\<close>

theorem local_2_shapes:
  assumes "fst (local_2 a s) = Inr d"
  shows "\<exists>X y out.
      arrays s (cacheDirectory (state a), covariates (cache a)) = Some X
    \<and> arrays s (cacheDirectory (state a), dependents (cache a)) = Some y
    \<and> local_2_written (snd (local_2 a s)) = Some out
    \<and> length (SSE_local out) = ncols y
    \<and> length (SST_local out) = ncols y
    \<and> length (varX_matrix_local out) = ncols X
    \<and> list_all (\<lambda>row. length row = ncols X) (varX_matrix_local out)"
proof -
  from assms obtain X where
    X: "arrays s (cacheDirectory (state a), covariates (cache a)) = Some X"
    by (auto simp: local_2_def np_load_def split: option.splits)
  from assms X obtain y where
    y: "arrays s (cacheDirectory (state a), dependents (cache a)) = Some y"
    by (auto simp: local_2_def np_load_def split: option.splits)
  from assms X y obtain SSE SST where
    loop: "voxel_loop X y (avg_beta_vector (input a)) (mean_y_global (input a))
             [0..<ncols y] [] [] = Inr (SSE, SST)"
    by (auto simp: local_2_def np_load_def split: sum.splits)
  from voxel_loop_result [OF loop]
  have len: "length SSE = ncols y" "length SST = ncols y"
    by simp_all
  let ?out = "\<lparr>SSE_local = SSE, SST_local = SST,
      varX_matrix_local = tolist \<lparr>nrows = ncols X, ncols = ncols X,
          elems = map (\<lambda>i. map (\<lambda>j. dot (column X i) (column X j)) [0..<ncols X])
                    [0..<ncols X]\<rparr>\<rparr>"
  have "snd (local_2 a s) = write_file (Local2Output ?out) ''output'' ''local_output'' s"
    using X y loop by (simp add: local_2_def np_load_def varX_always)
  then have "local_2_written (snd (local_2 a s)) = Some ?out"
    by (simp add: local_2_written_def write_file_def)
  moreover have "length (varX_matrix_local ?out) = ncols X
    \<and> list_all (\<lambda>row. length row = ncols X) (varX_matrix_local ?out)"
    by (simp add: tolist_def list_all_iff)
  ultimately show ?thesis
    using X y len by auto
qed

theorem local_2_shapes_witness:
  "\<exists>out. local_2_written (snd (local_2 scenario_args_2 scenario_store)) = Some out
     \<and> length (SSE_local out) = 1 \<and> length (SST_local out) = 1
     \<and> length (varX_matrix_local out) = 3
     \<and> list_all (\<lambda>row. length row = 3) (varX_matrix_local out)"
  using local_2_shapes [OF scenario_local_2_runs] scenario_hyps(1,2)
  by (auto simp: scenario_X_def scenario_y_def)

text \<open>
  C6: \<^verbatim>\<open>local_2\<close> leaves every cached array and every image as it found them, leaves
  every document kept under \<^verbatim>\<open>cache\<close> (the cached arguments among them) as it found
  it, and the \<^verbatim>\<open>cache\<close> section of the document it returns is empty. Its one write
  goes to \<^verbatim>\<open>local_output\<close> under \<^verbatim>\<open>output\<close>.
\<close>

theorem local_2_no_cache_write:
  "arrays (snd (local_2 a s)) = arrays s
 \<and> images (snd (local_2 a s)) = images s
 \<and> (\<forall>file_name. documents (snd (local_2 a s)) (''cache'', file_name)
                   = documents s (''cache'', file_name))
 \<and> (\<forall>d. fst (local_2 a s) = Inr d \<longrightarrow> cache_dict d = [])"
  by (auto simp: local_2_def write_file_def split: sum.splits prod.splits)

theorem local_2_no_cache_write_witness:
  "arrays (snd (local_2 scenario_args_2 scenario_store)) (''/cache'', ''X.npy'') = Some scenario_X
 \<and> arrays (snd (local_2 scenario_args_2 scenario_store)) (''/cache'', ''y.npy'') = Some scenario_y
 \<and> documents (snd (local_2 scenario_args_2 scenario_store)) (''cache'', ''args_file'')
     = Some (ArgsFile scenario_args_0)
 \<and> (\<exists>d. fst (local_2 scenario_args_2 scenario_store) = Inr d \<and> cache_dict d = [])"
proof -
  have "arrays scenario_store (''/cache'', ''X.npy'') = Some scenario_X"
    "arrays scenario_store (''/cache'', ''y.npy'') = Some scenario_y"
    "documents scenario_store (''cache'', ''args_file'') = Some (ArgsFile scenario_args_0)"
    by (simp_all add: scenario_store_def)
  with local_2_no_cache_write [of scenario_args_2 scenario_store] scenario_local_2_runs
  show ?thesis by auto
qed

end
